theory Spec2Isabelle
  imports Complex_Main "HOL-Library.Word"
begin

section \<open>JavaScript strings\<close>

text \<open>
  A JavaScript string is a sequence of 16-bit code units. Literals of the source are
  written \<open>str ''...''\<close>. A string is falsy exactly when it is empty.
\<close>

type_synonym code_unit = "16 word"
type_synonym js_string = "code_unit list"

definition str :: "string \<Rightarrow> js_string" where
  "str s = map of_char s"

text \<open>
  \<open>String.prototype.trim\<close> removes leading and trailing WhiteSpace and LineTerminator
  code points (ECMAScript 22.1.3.32): TAB, LF, VT, FF, CR, SP, NBSP, the Unicode space
  separators, LS, PS and the byte order mark.
\<close>

definition isWhiteSpace :: "code_unit \<Rightarrow> bool" where
  "isWhiteSpace c \<longleftrightarrow>
     c \<in> {0x0009, 0x000A, 0x000B, 0x000C, 0x000D, 0x0020, 0x00A0, 0x1680,
          0x2000, 0x2001, 0x2002, 0x2003, 0x2004, 0x2005, 0x2006, 0x2007, 0x2008,
          0x2009, 0x200A, 0x2028, 0x2029, 0x202F, 0x205F, 0x3000, 0xFEFF}"

definition trimStart :: "js_string \<Rightarrow> js_string" where
  "trimStart s = dropWhile isWhiteSpace s"

definition trimEnd :: "js_string \<Rightarrow> js_string" where
  "trimEnd s = rev (dropWhile isWhiteSpace (rev s))"

definition trim :: "js_string \<Rightarrow> js_string" where
  "trim s = trimEnd (trimStart s)"

text \<open>
  \<open>Number.prototype.toString\<close> on a non-negative integer (below \<open>10^21\<close> the result is
  the plain decimal numeral) and on a negative one, and \<open>String.prototype.padStart\<close>.
\<close>

definition digit :: "nat \<Rightarrow> code_unit" where
  "digit d = of_nat (48 + d)"

fun toString :: "nat \<Rightarrow> js_string" where
  "toString n = (if n < 10 then [digit n] else toString (n div 10) @ [digit (n mod 10)])"


definition padStart :: "nat \<Rightarrow> js_string \<Rightarrow> js_string \<Rightarrow> js_string" where
  "padStart targetLength padString s =
     (if targetLength \<le> length s \<or> padString = [] then s
      else take (targetLength - length s)
             (concat (replicate (targetLength - length s) padString)) @ s)"

section \<open>The appointment document\<close>

text \<open>
  An appointment as the components hold it at run time: the document id together with
  every stored field (\<open>{ id: doc.id, ...doc.data() }\<close>). The fields written by the booking
  form through optional chaining (\<open>userData?.uid\<close>, \<open>userData?.name\<close>,
  \<open>selectedDoctor?.name\<close>) may be undefined (\<open>None\<close>). \<open>status\<close> is a plain string:
  \<open>updateAppointmentStatus\<close> takes any string. \<open>createdAt\<close> is a timestamp in
  milliseconds, \<open>None\<close> when the field is missing.

  Names are those of the source. A field whose name Isabelle reserves (\<open>id\<close>, \<open>note\<close>,
  \<open>notes\<close>) carries a prime, and where several records of the source share a field name
  all but one carry a prefix (\<open>rx_\<close>, \<open>fb_\<close>, \<open>fd_\<close>, \<open>doc_\<close>, or the initials of the
  component for its state). The two \<open>handleSubmit\<close> functions carry the name of their
  component.
\<close>

record appointment =
  id' :: js_string
  patientId :: "js_string option"
  patientName :: "js_string option"
  doctorId :: js_string
  doctorName :: "js_string option"
  date :: js_string
  time :: js_string
  note' :: js_string
  status :: js_string
  createdAt :: "int option"

section \<open>ManageAppointments: the doctor's lifecycle manager\<close>

record action_button =
  action :: js_string
  label :: js_string
  color :: js_string

definition getAvailableActions :: "js_string \<Rightarrow> action_button list" where
  "getAvailableActions st =
     (if st = str ''pending'' then
        [\<lparr>action = str ''confirmed'', label = str ''Confirm'',
          color = str ''bg-blue-600 hover:bg-blue-700''\<rparr>,
         \<lparr>action = str ''cancelled'', label = str ''Cancel'',
          color = str ''bg-red-600 hover:bg-red-700''\<rparr>]
      else if st = str ''confirmed'' then
        [\<lparr>action = str ''in_progress'', label = str ''Start'',
          color = str ''bg-purple-600 hover:bg-purple-700''\<rparr>,
         \<lparr>action = str ''cancelled'', label = str ''Cancel'',
          color = str ''bg-red-600 hover:bg-red-700''\<rparr>]
      else if st = str ''in_progress'' then
        [\<lparr>action = str ''completed'', label = str ''Complete'',
          color = str ''bg-green-600 hover:bg-green-700''\<rparr>]
      else [])"

text \<open>
  The row of an appointment renders one button per available action; its click handler
  calls \<open>updateAppointmentStatus(appointment.id, action.action)\<close>. \<open>offeredTargets\<close> are
  the target statuses of those buttons, in order.
\<close>

definition offeredTargets :: "js_string \<Rightarrow> js_string list" where
  "offeredTargets st = map action (getAvailableActions st)"

text \<open>
  \<open>clicks s ts\<close>: starting from status \<open>s\<close>, the successive targets \<open>ts\<close> are each a
  button offered at the status reached so far.
\<close>

fun clicks :: "js_string \<Rightarrow> js_string list \<Rightarrow> bool" where
  "clicks s [] = True"
| "clicks s (t # ts) = (List.member (offeredTargets s) t \<and> clicks t ts)"

text \<open>
  The component's state. \<open>updating\<close> is the id of the appointment whose write is in
  flight, or null.
\<close>

record manage_state =
  appointments :: "appointment list"
  ma_loading :: bool
  updating :: "js_string option"
  ma_filter :: js_string
  showPrescriptionForm :: bool
  ma_selectedAppointment :: "appointment option"

text \<open>
  Firestore's \<open>updateDoc(doc(db, 'appointments', docId), {status: newStatus})\<close> on the
  appointments collection: it rejects when the backend call fails (\<open>ok = False\<close>) or no
  document has that id, and otherwise replaces the status field of that document.
\<close>

definition updateDoc_status ::
  "bool \<Rightarrow> appointment list \<Rightarrow> js_string \<Rightarrow> js_string \<Rightarrow> appointment list option" where
  "updateDoc_status ok col docId newStatus =
     (if ok \<and> list_ex (\<lambda>d. id' d = docId) col
      then Some (map (\<lambda>d. if id' d = docId then d\<lparr>status := newStatus\<rparr> else d) col)
      else None)"

text \<open>
  \<open>updateAppointmentStatus\<close> on the stored collection \<open>col\<close> and the component state:
  after a successful write the local list is patched with
  \<open>apt.id === appointmentId ? {...apt, status: newStatus} : apt\<close>; a failed write is
  logged and the list is left alone; \<open>updating\<close> is cleared either way.
\<close>

definition updateAppointmentStatus ::
  "bool \<Rightarrow> js_string \<Rightarrow> js_string \<Rightarrow> appointment list \<times> manage_state \<Rightarrow>
   appointment list \<times> manage_state" where
  "updateAppointmentStatus ok appointmentId newStatus w =
     (let col = fst w;
          s1 = (snd w)\<lparr>updating := Some appointmentId\<rparr>
      in case updateDoc_status ok col appointmentId newStatus of
           Some col' \<Rightarrow>
             (col',
              s1\<lparr>appointments :=
                    map (\<lambda>apt. if id' apt = appointmentId
                               then apt\<lparr>status := newStatus\<rparr> else apt)
                        (appointments s1),
                  updating := None\<rparr>)
         | None \<Rightarrow> (col, s1\<lparr>updating := None\<rparr>))"

section \<open>PrescriptionForm: prescription authoring\<close>

record medication =
  name :: js_string
  dosage :: js_string
  frequency :: js_string
  duration :: js_string
  instructions :: js_string

text \<open>The stored prescription document; its fields carry the prefix \<open>rx_\<close>.\<close>

record prescription =
  rx_id :: js_string
  rx_appointmentId :: js_string
  rx_patientId :: js_string
  rx_patientName :: js_string
  rx_diagnosis :: js_string
  rx_medications :: "medication list"
  rx_notes :: js_string
  rx_createdAt :: int

record prescription_props =
  props_appointmentId :: js_string
  props_patientId :: js_string
  props_patientName :: js_string

record prescription_form =
  medications :: "medication list"
  diagnosis :: js_string
  notes' :: js_string
  form_loading :: bool

text \<open>
  \<open>handleSubmit\<close> of the prescription form. \<open>reply\<close> is the answer of \<open>addDoc\<close>: the id
  of the new document, or \<open>None\<close> when the call throws. \<open>now\<close> is the reading of
  \<open>Timestamp.now()\<close>. The result is the alert shown (if any), the prescriptions
  collection and the form state.
\<close>

definition PrescriptionForm_handleSubmit ::
  "js_string option \<Rightarrow> int \<Rightarrow> prescription_props \<Rightarrow> prescription_form \<Rightarrow>
   prescription list \<Rightarrow> js_string option \<times> prescription list \<times> prescription_form" where
  "PrescriptionForm_handleSubmit reply now props f col =
     (if trim (diagnosis f) = [] then
        (Some (str ''Please enter a diagnosis''), col, f)
      else
        let validMedications = filter (\<lambda>med. trim (name med) \<noteq> []) (medications f) in
        if length validMedications = 0 then
          (Some (str ''Please add at least one medication''), col, f)
        else
          (case reply of
             Some newId \<Rightarrow>
               (None,
                col @ [\<lparr>rx_id = newId,
                        rx_appointmentId = props_appointmentId props,
                        rx_patientId = props_patientId props,
                        rx_patientName = props_patientName props,
                        rx_diagnosis = diagnosis f,
                        rx_medications = validMedications,
                        rx_notes = notes' f,
                        rx_createdAt = now\<rparr>],
                f\<lparr>form_loading := False\<rparr>)
           | None \<Rightarrow>
               (Some (str ''Failed to create prescription. Please try again.''), col,
                f\<lparr>form_loading := False\<rparr>)))"

section \<open>PatientFeedback: feedback collection\<close>

text \<open>The signed-in user of the auth context: \<open>userData.uid\<close> and \<open>userData.name\<close>.\<close>

record user_data =
  uid :: js_string
  user_name :: js_string

text \<open>
  A feedback record; its fields carry the prefix \<open>fb_\<close>. The patient fields are
  \<open>None\<close> when undefined: the stored document gets them from \<open>userData?.uid\<close> and
  \<open>userData?.name\<close>, and the record that the form appends to its local list has none.
\<close>

record feedback =
  fb_id :: js_string
  fb_appointmentId :: js_string
  fb_patientId :: "js_string option"
  fb_patientName :: "js_string option"
  fb_doctorId :: js_string
  fb_doctorName :: "js_string option"
  fb_rating :: int
  fb_comment :: js_string
  fb_createdAt :: "int option"









text \<open>
  The interactive star row is \<open>Array.from({ length: 5 }, (_, i) => ...)\<close>; the click
  handler of star \<open>i\<close> is \<open>setRating(i + 1)\<close>, its mouse-enter handler
  \<open>setHoverRating(i + 1)\<close>. \<open>starRatings\<close> lists the ratings the five stars set;
  \<open>clickStar i\<close> and \<open>hoverStar i\<close> are a click on and a move over star \<open>i\<close> (there is
  none for \<open>i \<ge> 5\<close>).
\<close>

definition starRatings :: "int list" where
  "starRatings = map (\<lambda>i. int i + 1) [0..<5]"


















section \<open>DoctorFeedback: aggregate statistics\<close>

text \<open>
  JavaScript numbers are modelled by exact rationals. \<open>Math.round\<close> rounds to the nearest
  integer, a half towards \<open>+\<infinity>\<close>. An entry of the histogram object is a number; it
  is \<open>NaN\<close> once \<open>++\<close> has been applied to a key the object did not have.
\<close>

definition Math_round :: "rat \<Rightarrow> int" where
  "Math_round x = \<lfloor>x + 1 / 2\<rfloor>"

datatype js_count = NaN | Count nat

definition increment :: "(int \<rightharpoonup> js_count) \<Rightarrow> int \<Rightarrow> (int \<rightharpoonup> js_count)" where
  "increment obj k =
     obj(k \<mapsto> (case obj k of Some (Count n) \<Rightarrow> Count (n + 1) | _ \<Rightarrow> NaN))"

record stats =
  totalReviews :: nat
  averageRating :: rat
  ratingDistribution :: "int \<rightharpoonup> js_count"
  withComments :: nat

definition calculateStats :: "feedback list \<Rightarrow> stats" where
  "calculateStats feedbackList =
     (let total = length feedbackList;
          average =
            (if total > 0
             then of_int (foldl (\<lambda>sum fb. sum + fb_rating fb) 0 feedbackList) / of_nat total
             else 0);
          distribution =
            foldl (\<lambda>obj fb. increment obj (fb_rating fb))
              [1 \<mapsto> Count 0, 2 \<mapsto> Count 0, 3 \<mapsto> Count 0, 4 \<mapsto> Count 0, 5 \<mapsto> Count 0]
              feedbackList;
          commented =
            length (filter (\<lambda>fb. fb_comment fb \<noteq> [] \<and> trim (fb_comment fb) \<noteq> [])
                      feedbackList)
      in \<lparr>totalReviews = total,
          averageRating = of_int (Math_round (average * 10)) / 10,
          ratingDistribution = distribution,
          withComments = commented\<rparr>)"

section \<open>BookAppointment: the booking policy\<close>

text \<open>
  The host's \<open>Date\<close>, as far as the component uses it. A time value is a number of
  milliseconds since the epoch; \<open>None\<close> is the time value \<open>NaN\<close> of an invalid date.
  \<^item> \<open>toISODate h t\<close> is \<open>new Date(t).toISOString().split('T')[0]\<close>, the UTC calendar
    date of \<open>t\<close>;
  \<^item> \<open>parseDate h s\<close> is the time value of \<open>new Date(s)\<close>;
  \<^item> \<open>localTZA h t isUTC\<close> is the local time zone adjustment \<open>LocalTZA(t, isUTC)\<close> of
    ECMAScript 21.4.1.
\<close>

record host =
  toISODate :: "int \<Rightarrow> js_string"
  parseDate :: "js_string \<Rightarrow> int option"
  localTZA :: "int \<Rightarrow> bool \<Rightarrow> int"

definition msPerDay :: int where
  "msPerDay = 86400000"

definition Day :: "int \<Rightarrow> int" where
  "Day t = t div msPerDay"

definition LocalTime :: "host \<Rightarrow> int \<Rightarrow> int" where
  "LocalTime h t = t + localTZA h t True"

definition TimeClip :: "int \<Rightarrow> int option" where
  "TimeClip t = (if \<bar>t\<bar> > 8640000000000000 then None else Some t)"

text \<open>
  \<open>d.setHours(0, 0, 0, 0)\<close> on a date with time value \<open>tv\<close>: the start of the local
  calendar day of \<open>tv\<close>, converted back to UTC.
\<close>

definition setHours0 :: "host \<Rightarrow> int \<Rightarrow> int option" where
  "setHours0 h tv =
     (let t = LocalTime h tv;
          date = Day t * msPerDay
      in TimeClip (date - localTZA h date False))"

text \<open>\<open>a < b\<close> on two dates compares their time values; it is false when one is \<open>NaN\<close>.\<close>

definition dateLess :: "int option \<Rightarrow> int option \<Rightarrow> bool" where
  "dateLess a b = (case (a, b) of (Some x, Some y) \<Rightarrow> x < y | _ \<Rightarrow> False)"

record doctor =
  doc_id :: js_string
  doc_name :: js_string
  doc_email :: js_string

record form_data =
  fd_doctorId :: js_string
  fd_date :: js_string
  fd_time :: js_string
  fd_note :: js_string

record booking_state =
  doctors :: "doctor list"
  formData :: form_data
  ba_loading :: bool
  success :: bool
  error :: js_string
  todayBookings :: nat

definition emptyForm :: form_data where
  "emptyForm = \<lparr>fd_doctorId = [], fd_date = [], fd_time = [], fd_note = []\<rparr>"

definition initialBooking :: "doctor list \<Rightarrow> booking_state" where
  "initialBooking ds =
     \<lparr>doctors = ds, formData = emptyForm, ba_loading = False, success = False,
      error = [], todayBookings = 0\<rparr>"

text \<open>
  \<open>checkTodayBookings\<close>: \<open>now\<close> is the reading of \<open>new Date()\<close>, \<open>ok\<close> tells whether
  \<open>getDocs\<close> answers, \<open>col\<close> is the appointments collection.
\<close>

definition checkTodayBookings ::
  "host \<Rightarrow> user_data option \<Rightarrow> int \<Rightarrow> bool \<Rightarrow> appointment list \<Rightarrow> booking_state \<Rightarrow>
   booking_state" where
  "checkTodayBookings h userData now ok col s =
     (case userData of
        None \<Rightarrow> s
      | Some u \<Rightarrow>
          if \<not> ok then s
          else
            let today = toISODate h now
            in s\<lparr>todayBookings :=
                    length (filter (\<lambda>d. patientId d = Some (uid u) \<and> date d = today) col)\<rparr>)"

text \<open>What one call of \<open>handleSubmit\<close> reads from outside the component.\<close>

record submit_io =
  io_now :: int
  io_addDoc :: "js_string option"
  io_created :: int
  io_refresh_now :: int
  io_refresh_ok :: bool

text \<open>
  \<open>handleSubmit\<close> of the booking form, on the appointments collection and the component
  state. \<open>io_now\<close> is the reading of \<open>new Date()\<close>, \<open>io_addDoc\<close> the answer of \<open>addDoc\<close>
  (the id of the new document, or \<open>None\<close> when it throws), \<open>io_created\<close> the reading of
  \<open>Timestamp.now()\<close>. After a successful write the handler starts
  \<open>checkTodayBookings()\<close>; the calls being sequential, that refresh (with its own clock
  reading \<open>io_refresh_now\<close> and answer \<open>io_refresh_ok\<close>) is complete in the state
  returned here.
\<close>

definition BookAppointment_handleSubmit ::
  "host \<Rightarrow> user_data option \<Rightarrow> submit_io \<Rightarrow> appointment list \<times> booking_state \<Rightarrow>
   appointment list \<times> booking_state" where
  "BookAppointment_handleSubmit h userData io w =
     (let col = fst w; s = snd w; fd = formData s in
      if todayBookings s \<ge> 2 then
        (col, s\<lparr>error := str ''You can only book a maximum of 2 appointments per day''\<rparr>)
      else if fd_doctorId fd = [] \<or> fd_date fd = [] \<or> fd_time fd = [] then
        (col, s\<lparr>error := str ''Please fill in all required fields''\<rparr>)
      else
        let selectedDate = parseDate h (fd_date fd);
            today = setHours0 h (io_now io)
        in if dateLess selectedDate today then
             (col, s\<lparr>error := str ''Cannot book appointments for past dates''\<rparr>)
           else
             (case io_addDoc io of
                Some newId \<Rightarrow>
                  let selectedDoctor = find (\<lambda>doc. doc_id doc = fd_doctorId fd) (doctors s);
                      col' = col @
                        [\<lparr>id' = newId,
                          patientId = map_option uid userData,
                          patientName = map_option user_name userData,
                          doctorId = fd_doctorId fd,
                          doctorName = map_option doc_name selectedDoctor,
                          date = fd_date fd,
                          time = fd_time fd,
                          note' = fd_note fd,
                          status = str ''pending'',
                          createdAt = Some (io_created io)\<rparr>];
                      s' = s\<lparr>ba_loading := False, error := [], success := True,
                             formData := emptyForm\<rparr>
                  in (col', checkTodayBookings h userData (io_refresh_now io)
                              (io_refresh_ok io) col' s')
              | None \<Rightarrow>
                  (col,
                   s\<lparr>ba_loading := False,
                     error := str ''Failed to book appointment. Please try again.''\<rparr>)))"

text \<open>
  \<open>handleChange\<close> stores the value of the input named \<open>doctorId\<close>, \<open>date\<close>, \<open>time\<close> or
  \<open>note\<close>; the button of the success screen calls \<open>setSuccess(false)\<close>.
\<close>

definition handleChange :: "js_string \<Rightarrow> js_string \<Rightarrow> booking_state \<Rightarrow> booking_state" where
  "handleChange field v s =
     (let fd = formData s in
      s\<lparr>formData :=
          (if field = str ''doctorId'' then fd\<lparr>fd_doctorId := v\<rparr>
           else if field = str ''date'' then fd\<lparr>fd_date := v\<rparr>
           else if field = str ''time'' then fd\<lparr>fd_time := v\<rparr>
           else if field = str ''note'' then fd\<lparr>fd_note := v\<rparr>
           else fd)\<rparr>)"

definition bookAnother :: "booking_state \<Rightarrow> booking_state" where
  "bookAnother s = s\<lparr>success := False\<rparr>"

text \<open>
  \<open>generateTimeSlots\<close>: the inner loop over \<open>minute\<close> (0, 30) and the outer loop over
  \<open>hour\<close> (9 to 17), each pushing
  \<open>`${hour.toString().padStart(2, '0')}:${minute.toString().padStart(2, '0')}`\<close>.
\<close>

function minuteLoop :: "nat \<Rightarrow> nat \<Rightarrow> js_string list \<Rightarrow> js_string list" where
  "minuteLoop hour minute slots =
     (if minute < 60 then
        minuteLoop hour (minute + 30)
          (slots @ [padStart 2 (str ''0'') (toString hour) @ str '':'' @
                    padStart 2 (str ''0'') (toString minute)])
      else slots)"
  by pat_completeness auto
termination
  by (relation "measure (\<lambda>(hour, minute, slots). 60 - minute)") auto

function hourLoop :: "nat \<Rightarrow> js_string list \<Rightarrow> js_string list" where
  "hourLoop hour slots =
     (if hour \<le> 17 then hourLoop (hour + 1) (minuteLoop hour 0 slots) else slots)"
  by pat_completeness auto
termination
  by (relation "measure (\<lambda>(hour, slots). 18 - hour)") auto

definition generateTimeSlots :: "js_string list" where
  "generateTimeSlots = hourLoop 9 []"

text \<open>The options of the time select: the placeholder, then one option per slot.\<close>

definition timeOptions :: "js_string list" where
  "timeOptions = [] # generateTimeSlots"

text \<open>
  One booking through the form: the patient leaves the success screen if it is shown,
  picks a doctor, a date and a time, and submits.
\<close>

definition fillAndSubmit ::
  "host \<Rightarrow> user_data option \<Rightarrow> submit_io \<Rightarrow> js_string \<Rightarrow> js_string \<Rightarrow> js_string \<Rightarrow>
   appointment list \<times> booking_state \<Rightarrow> appointment list \<times> booking_state" where
  "fillAndSubmit h userData io doc d t w =
     BookAppointment_handleSubmit h userData io
       (fst w,
        handleChange (str ''time'') t
          (handleChange (str ''date'') d
             (handleChange (str ''doctorId'') doc (bookAnother (snd w)))))"

text \<open>
  A clock the component can meet: the time zone adjustment is less than a day either
  way, and the time read lies after 1970 and at least two days before the end of the
  range of \<open>Date\<close>.
\<close>

definition wallClock :: "host \<Rightarrow> int \<Rightarrow> bool" where
  "wallClock h now \<longleftrightarrow>
     (\<forall>t b. \<bar>localTZA h t b\<bar> < msPerDay) \<and> 0 \<le> now \<and>
     now \<le> 8640000000000000 - 2 * msPerDay"

section \<open>Example data\<close>

text \<open>Concrete documents and form states on which the theorems below are exercised.\<close>

definition exampleAppointment :: "string \<Rightarrow> string \<Rightarrow> string \<Rightarrow> string \<Rightarrow> appointment" where
  "exampleAppointment i p d st =
     \<lparr>id' = str i, patientId = Some (str p), patientName = Some (str ''Asha''),
      doctorId = str ''d1'', doctorName = Some (str ''Rao''), date = str d,
      time = str ''09:00'', note' = [], status = str st, createdAt = Some 0\<rparr>"

definition exampleManageState :: "appointment list \<Rightarrow> manage_state" where
  "exampleManageState xs =
     \<lparr>appointments = xs, ma_loading = False, updating = None, ma_filter = str ''all'',
      showPrescriptionForm = False, ma_selectedAppointment = None\<rparr>"

definition exampleMedication :: "string \<Rightarrow> medication" where
  "exampleMedication n =
     \<lparr>name = str n, dosage = str ''500mg'', frequency = str ''daily'',
      duration = str ''5 days'', instructions = []\<rparr>"

definition exampleProps :: prescription_props where
  "exampleProps =
     \<lparr>props_appointmentId = str ''a1'', props_patientId = str ''p1'',
      props_patientName = str ''Asha''\<rparr>"

definition exampleForm :: "string \<Rightarrow> string list \<Rightarrow> prescription_form" where
  "exampleForm d ns =
     \<lparr>medications = map exampleMedication ns, diagnosis = str d, notes' = [],
      form_loading = False\<rparr>"

definition exampleFeedback :: "string \<Rightarrow> int \<Rightarrow> feedback" where
  "exampleFeedback a r =
     \<lparr>fb_id = str ''f'', fb_appointmentId = str a, fb_patientId = Some (str ''p1''),
      fb_patientName = Some (str ''Asha''), fb_doctorId = str ''d1'',
      fb_doctorName = Some (str ''Rao''), fb_rating = r, fb_comment = [],
      fb_createdAt = Some 0\<rparr>"

definition exampleUser :: user_data where
  "exampleUser = \<lparr>uid = str ''p1'', user_name = str ''Asha''\<rparr>"

text \<open>
  A host five and a half hours ahead of UTC whose calendar is right throughout January
  2024 (day 19723 since the epoch is 2024-01-01): enough for the examples, which all lie
  in that month.
\<close>

definition isoJanuary2024 :: "nat \<Rightarrow> js_string" where
  "isoJanuary2024 d = str ''2024-01-'' @ padStart 2 (str ''0'') (toString d)"

definition exampleHost :: host where
  "exampleHost =
     \<lparr>toISODate = (\<lambda>t. isoJanuary2024 (nat (Day t - 19722))),
      parseDate = map_of (map (\<lambda>d. (isoJanuary2024 d, (19722 + int d) * msPerDay)) [1..<32]),
      localTZA = (\<lambda>t isUTC. 19800000)\<rparr>"

definition exampleDoctor :: doctor where
  "exampleDoctor = \<lparr>doc_id = str ''d1'', doc_name = str ''Rao'', doc_email = str ''rao@x.org''\<rparr>"

text \<open>The reads of one submission at \<open>now\<close>, all answered, the new document getting id \<open>i\<close>.\<close>

definition exampleIO :: "int \<Rightarrow> string \<Rightarrow> submit_io" where
  "exampleIO now i =
     \<lparr>io_now = now, io_addDoc = Some (str i), io_created = now, io_refresh_now = now,
      io_refresh_ok = True\<rparr>"

definition exampleBooking :: "string \<Rightarrow> string \<Rightarrow> string \<Rightarrow> nat \<Rightarrow> booking_state" where
  "exampleBooking doc d t n =
     (initialBooking [exampleDoctor])
       \<lparr>formData := \<lparr>fd_doctorId = str doc, fd_date = str d, fd_time = str t, fd_note = []\<rparr>,
        todayBookings := n\<rparr>"



section \<open>Properties of the lifecycle manager\<close>

lemma offered_pending:
  "offeredTargets (str ''pending'') = [str ''confirmed'', str ''cancelled'']"
  by (simp add: offeredTargets_def getAvailableActions_def)

lemma offered_confirmed:
  "offeredTargets (str ''confirmed'') = [str ''in_progress'', str ''cancelled'']"
  by (simp add: offeredTargets_def getAvailableActions_def str_def)

lemma offered_in_progress:
  "offeredTargets (str ''in_progress'') = [str ''completed'']"
  by (simp add: offeredTargets_def getAvailableActions_def str_def)

lemma offered_completed: "offeredTargets (str ''completed'') = []"
  by (simp add: offeredTargets_def getAvailableActions_def str_def)

lemma offered_cancelled: "offeredTargets (str ''cancelled'') = []"
  by (simp add: offeredTargets_def getAvailableActions_def str_def)

lemmas offered_table =
  offered_pending offered_confirmed offered_in_progress offered_completed offered_cancelled

lemma offered_default:
  "st \<noteq> str ''pending'' \<Longrightarrow> st \<noteq> str ''confirmed'' \<Longrightarrow> st \<noteq> str ''in_progress'' \<Longrightarrow>
   getAvailableActions st = []"
  by (simp add: getAvailableActions_def)

lemma clicks_terminal: "offeredTargets s = [] \<Longrightarrow> clicks s ts \<longleftrightarrow> ts = []"
  by (cases ts) simp_all

lemma clicks_in_progress:
  "clicks (str ''in_progress'') ts \<longleftrightarrow> ts = [] \<or> ts = [str ''completed'']"
  by (cases ts) (auto simp: offered_table clicks_terminal)

lemma clicks_confirmed:
  "clicks (str ''confirmed'') ts \<longleftrightarrow>
     ts \<in> {[], [str ''in_progress''], [str ''cancelled''],
           [str ''in_progress'', str ''completed'']}"
  by (cases ts) (auto simp: offered_table clicks_terminal clicks_in_progress)

lemma clicks_pending:
  "clicks (str ''pending'') ts \<longleftrightarrow>
     ts \<in> {[], [str ''confirmed''], [str ''cancelled''],
           [str ''confirmed'', str ''in_progress''],
           [str ''confirmed'', str ''cancelled''],
           [str ''confirmed'', str ''in_progress'', str ''completed'']}"
  by (cases ts) (auto simp: offered_table clicks_terminal clicks_confirmed)

text \<open>
  Claim C1. The target statuses that \<open>getAvailableActions\<close> offers are: from pending,
  confirmed and cancelled; from confirmed, in_progress and cancelled; from in_progress,
  completed; none from completed and none from cancelled. Hence the sequences of statuses
  that successive clicks can produce from pending are exactly the prefixes of
  pending, confirmed, in_progress, completed, with a cancellation possible from pending
  and from confirmed only: no state is skipped.
\<close>

theorem C1_lifecycle_table:
  "set (map action (getAvailableActions (str ''pending''))) =
     {str ''confirmed'', str ''cancelled''} \<and>
   set (map action (getAvailableActions (str ''confirmed''))) =
     {str ''in_progress'', str ''cancelled''} \<and>
   set (map action (getAvailableActions (str ''in_progress''))) = {str ''completed''} \<and>
   set (map action (getAvailableActions (str ''completed''))) = {} \<and>
   set (map action (getAvailableActions (str ''cancelled''))) = {} \<and>
   (clicks (str ''pending'') ts \<longleftrightarrow>
      ts \<in> {[], [str ''confirmed''], [str ''cancelled''],
            [str ''confirmed'', str ''in_progress''],
            [str ''confirmed'', str ''cancelled''],
            [str ''confirmed'', str ''in_progress'', str ''completed'']})"
proof -
  have "set (map action (getAvailableActions (str ''pending''))) =
          {str ''confirmed'', str ''cancelled''}"
    using offered_pending by (simp add: offeredTargets_def)
  moreover have "set (map action (getAvailableActions (str ''confirmed''))) =
          {str ''in_progress'', str ''cancelled''}"
    using offered_confirmed by (simp add: offeredTargets_def)
  moreover have "set (map action (getAvailableActions (str ''in_progress''))) =
          {str ''completed''}"
    using offered_in_progress by (simp add: offeredTargets_def)
  moreover have "set (map action (getAvailableActions (str ''completed''))) = {}"
    using offered_completed by (simp add: offeredTargets_def)
  moreover have "set (map action (getAvailableActions (str ''cancelled''))) = {}"
    using offered_cancelled by (simp add: offeredTargets_def)
  ultimately show ?thesis
    using clicks_pending [of ts] by blast
qed

section \<open>Properties of the local status update\<close>

lemma updateAppointmentStatus_appointments:
  "appointments (snd (updateAppointmentStatus ok appointmentId newStatus w)) =
     (if updateDoc_status ok (fst w) appointmentId newStatus = None then appointments (snd w)
      else map (\<lambda>apt. if id' apt = appointmentId then apt\<lparr>status := newStatus\<rparr> else apt)
             (appointments (snd w)))"
  by (simp add: updateAppointmentStatus_def Let_def split: option.splits)

text \<open>
  Claim C9. Whatever the appointment list and the transition, after
  \<open>updateAppointmentStatus\<close> the local list has the same length, and at every position
  the appointment keeps its id, patientId, patientName, doctorId, doctorName, date, time,
  note and createdAt; an appointment whose id differs from \<open>appointmentId\<close> is unchanged
  altogether, and a status changes only on an appointment with that id, to \<open>newStatus\<close>.
\<close>

theorem C9_updateAppointmentStatus_frame:
  assumes "updateAppointmentStatus ok appointmentId newStatus (col, s) = (col', s')"
      and "i < length (appointments s)"
  shows "length (appointments s') = length (appointments s) \<and>
         id' (appointments s' ! i) = id' (appointments s ! i) \<and>
         patientId (appointments s' ! i) = patientId (appointments s ! i) \<and>
         patientName (appointments s' ! i) = patientName (appointments s ! i) \<and>
         doctorId (appointments s' ! i) = doctorId (appointments s ! i) \<and>
         doctorName (appointments s' ! i) = doctorName (appointments s ! i) \<and>
         date (appointments s' ! i) = date (appointments s ! i) \<and>
         time (appointments s' ! i) = time (appointments s ! i) \<and>
         note' (appointments s' ! i) = note' (appointments s ! i) \<and>
         createdAt (appointments s' ! i) = createdAt (appointments s ! i) \<and>
         (id' (appointments s ! i) \<noteq> appointmentId \<longrightarrow>
            appointments s' ! i = appointments s ! i) \<and>
         (status (appointments s' ! i) = status (appointments s ! i) \<or>
          id' (appointments s ! i) = appointmentId \<and>
          status (appointments s' ! i) = newStatus)"
proof -
  have "appointments s' =
     (if updateDoc_status ok col appointmentId newStatus = None then appointments s
      else map (\<lambda>apt. if id' apt = appointmentId then apt\<lparr>status := newStatus\<rparr> else apt)
             (appointments s))"
    using updateAppointmentStatus_appointments [of ok appointmentId newStatus "(col, s)"]
      assms(1)
    by simp
  then show ?thesis
    using assms(2)
    by (cases "updateDoc_status ok col appointmentId newStatus = None") simp_all
qed

theorem C9_updateAppointmentStatus_frame_witness:
  "(1::nat) < length (appointments (exampleManageState
      [exampleAppointment ''a1'' ''p1'' ''2024-01-02'' ''pending'',
       exampleAppointment ''a2'' ''p2'' ''2024-01-03'' ''confirmed''])) \<and>
   status (appointments (snd (updateAppointmentStatus True (str ''a1'') (str ''confirmed'')
      ([exampleAppointment ''a1'' ''p1'' ''2024-01-02'' ''pending'',
        exampleAppointment ''a2'' ''p2'' ''2024-01-03'' ''confirmed''],
       exampleManageState
         [exampleAppointment ''a1'' ''p1'' ''2024-01-02'' ''pending'',
          exampleAppointment ''a2'' ''p2'' ''2024-01-03'' ''confirmed'']))) ! 0) =
     str ''confirmed'' \<and>
   appointments (snd (updateAppointmentStatus True (str ''a1'') (str ''confirmed'')
      ([exampleAppointment ''a1'' ''p1'' ''2024-01-02'' ''pending'',
        exampleAppointment ''a2'' ''p2'' ''2024-01-03'' ''confirmed''],
       exampleManageState
         [exampleAppointment ''a1'' ''p1'' ''2024-01-02'' ''pending'',
          exampleAppointment ''a2'' ''p2'' ''2024-01-03'' ''confirmed'']))) ! 1 =
     exampleAppointment ''a2'' ''p2'' ''2024-01-03'' ''confirmed''"
proof -
  let ?xs = "[exampleAppointment ''a1'' ''p1'' ''2024-01-02'' ''pending'',
              exampleAppointment ''a2'' ''p2'' ''2024-01-03'' ''confirmed'']"
  let ?r = "updateAppointmentStatus True (str ''a1'') (str ''confirmed'')
              (?xs, exampleManageState ?xs)"
  have len: "(1::nat) < length (appointments (exampleManageState ?xs))"
    by (simp add: exampleManageState_def)
  have eq: "?r = (fst ?r, snd ?r)" by simp
  have other: "id' (appointments (exampleManageState ?xs) ! 1) \<noteq> str ''a1''"
    by (simp add: exampleManageState_def exampleAppointment_def str_def)
  have snd_eq: "appointments (exampleManageState ?xs) ! 1 =
      exampleAppointment ''a2'' ''p2'' ''2024-01-03'' ''confirmed''"
    by (simp add: exampleManageState_def)
  have first: "status (appointments (snd ?r) ! 0) = str ''confirmed''"
    by (simp add: updateAppointmentStatus_def updateDoc_status_def exampleManageState_def
        exampleAppointment_def str_def)
  from C9_updateAppointmentStatus_frame [OF eq len] other snd_eq
  have "appointments (snd ?r) ! 1 = exampleAppointment ''a2'' ''p2'' ''2024-01-03'' ''confirmed''"
    by simp
  with len first show ?thesis by blast
qed

section \<open>Properties of prescription authoring\<close>

lemma all_dropWhile: "(\<forall>c\<in>set (dropWhile P s). P c) \<longleftrightarrow> (\<forall>c\<in>set s. P c)"
  by (induction s) auto

lemma trim_empty_iff: "trim s = [] \<longleftrightarrow> (\<forall>c\<in>set s. isWhiteSpace c)"
  by (simp add: trim_def trimEnd_def trimStart_def all_dropWhile)

lemma trim_Nil: "trim [] = []"
  by (simp add: trim_empty_iff)

lemma rx_reject_diagnosis:
  "trim (diagnosis f) = [] \<Longrightarrow>
   PrescriptionForm_handleSubmit reply now props f col =
     (Some (str ''Please enter a diagnosis''), col, f)"
  by (simp add: PrescriptionForm_handleSubmit_def)

lemma rx_reject_medications:
  "trim (diagnosis f) \<noteq> [] \<Longrightarrow>
   filter (\<lambda>med. trim (name med) \<noteq> []) (medications f) = [] \<Longrightarrow>
   PrescriptionForm_handleSubmit reply now props f col =
     (Some (str ''Please add at least one medication''), col, f)"
  by (simp add: PrescriptionForm_handleSubmit_def)

lemma rx_write_failed:
  "trim (diagnosis f) \<noteq> [] \<Longrightarrow>
   filter (\<lambda>med. trim (name med) \<noteq> []) (medications f) \<noteq> [] \<Longrightarrow>
   PrescriptionForm_handleSubmit None now props f col =
     (Some (str ''Failed to create prescription. Please try again.''), col,
      f\<lparr>form_loading := False\<rparr>)"
  by (simp add: PrescriptionForm_handleSubmit_def)

lemma rx_written:
  "trim (diagnosis f) \<noteq> [] \<Longrightarrow>
   filter (\<lambda>med. trim (name med) \<noteq> []) (medications f) \<noteq> [] \<Longrightarrow>
   PrescriptionForm_handleSubmit (Some newId) now props f col =
     (None,
      col @ [\<lparr>rx_id = newId,
              rx_appointmentId = props_appointmentId props,
              rx_patientId = props_patientId props,
              rx_patientName = props_patientName props,
              rx_diagnosis = diagnosis f,
              rx_medications = filter (\<lambda>med. trim (name med) \<noteq> []) (medications f),
              rx_notes = notes' f,
              rx_createdAt = now\<rparr>],
      f\<lparr>form_loading := False\<rparr>)"
  by (simp add: PrescriptionForm_handleSubmit_def)

lemma empty_names_filter:
  "filter (\<lambda>med. name med \<noteq> []) ms = [] \<Longrightarrow>
   filter (\<lambda>med. trim (name med) \<noteq> []) ms = []"
  by (auto simp: filter_empty_conv trim_Nil)

lemma valid_medications_named:
  "med \<in> set (filter (\<lambda>med. trim (name med) \<noteq> []) ms) \<Longrightarrow> name med \<noteq> [] \<and> med \<in> set ms"
  by (auto simp: trim_Nil)

text \<open>The four ways \<open>handleSubmit\<close> of the prescription form can end.\<close>

lemma rx_outcome_cases:
  obtains (NoDiagnosis) "trim (diagnosis f) = []"
      "PrescriptionForm_handleSubmit reply now props f col =
         (Some (str ''Please enter a diagnosis''), col, f)"
  | (NoMedication) "trim (diagnosis f) \<noteq> []"
      "filter (\<lambda>med. trim (name med) \<noteq> []) (medications f) = []"
      "PrescriptionForm_handleSubmit reply now props f col =
         (Some (str ''Please add at least one medication''), col, f)"
  | (WriteFailed) "trim (diagnosis f) \<noteq> []"
      "filter (\<lambda>med. trim (name med) \<noteq> []) (medications f) \<noteq> []"
      "reply = None"
      "PrescriptionForm_handleSubmit reply now props f col =
         (Some (str ''Failed to create prescription. Please try again.''), col,
          f\<lparr>form_loading := False\<rparr>)"
  | (Written) newId where "trim (diagnosis f) \<noteq> []"
      "filter (\<lambda>med. trim (name med) \<noteq> []) (medications f) \<noteq> []"
      "reply = Some newId"
      "PrescriptionForm_handleSubmit reply now props f col =
         (None,
          col @ [\<lparr>rx_id = newId,
                  rx_appointmentId = props_appointmentId props,
                  rx_patientId = props_patientId props,
                  rx_patientName = props_patientName props,
                  rx_diagnosis = diagnosis f,
                  rx_medications = filter (\<lambda>med. trim (name med) \<noteq> []) (medications f),
                  rx_notes = notes' f,
                  rx_createdAt = now\<rparr>],
          f\<lparr>form_loading := False\<rparr>)"
proof (cases "trim (diagnosis f) = []")
  case True
  then show ?thesis using NoDiagnosis rx_reject_diagnosis by blast
next
  case diag: False
  show ?thesis
  proof (cases "filter (\<lambda>med. trim (name med) \<noteq> []) (medications f) = []")
    case True
    with diag show ?thesis using NoMedication rx_reject_medications by blast
  next
    case meds: False
    show ?thesis
    proof (cases reply)
      case None
      with diag meds show ?thesis using WriteFailed rx_write_failed by blast
    next
      case (Some newId)
      with diag meds show ?thesis using Written rx_written by blast
    qed
  qed
qed

lemma rx_rejects_blank_diagnosis:
  assumes "\<forall>c\<in>set (diagnosis f). isWhiteSpace c"
  shows "fst (PrescriptionForm_handleSubmit reply now props f col) \<noteq> None"
proof -
  from assms have "trim (diagnosis f) = []"
    by (simp add: trim_empty_iff)
  then have "PrescriptionForm_handleSubmit reply now props f col =
     (Some (str ''Please enter a diagnosis''), col, f)"
    by (rule rx_reject_diagnosis)
  then show ?thesis by simp
qed

lemma rx_rejects_unnamed_medications:
  assumes "filter (\<lambda>med. name med \<noteq> []) (medications f) = []"
  shows "fst (PrescriptionForm_handleSubmit reply now props f col) \<noteq> None"
proof (cases rule: rx_outcome_cases [of f reply now props col])
  case NoDiagnosis then show ?thesis by simp
next
  case NoMedication then show ?thesis by simp
next
  case WriteFailed then show ?thesis by simp
next
  case (Written newId)
  with empty_names_filter [OF assms] show ?thesis by simp
qed

lemma rx_rejected_unchanged:
  assumes "fst (PrescriptionForm_handleSubmit reply now props f col) \<noteq> None"
  shows "fst (snd (PrescriptionForm_handleSubmit reply now props f col)) = col"
proof (cases rule: rx_outcome_cases [of f reply now props col])
  case NoDiagnosis then show ?thesis by simp
next
  case NoMedication then show ?thesis by simp
next
  case WriteFailed then show ?thesis by simp
next
  case (Written newId)
  with assms show ?thesis by simp
qed

lemma rx_accepted_persists:
  assumes "fst (PrescriptionForm_handleSubmit reply now props f col) = None"
  shows "\<exists>p. fst (snd (PrescriptionForm_handleSubmit reply now props f col)) = col @ [p] \<and>
           rx_medications p = filter (\<lambda>med. trim (name med) \<noteq> []) (medications f) \<and>
           rx_medications p \<noteq> [] \<and>
           (\<forall>med\<in>set (rx_medications p). name med \<noteq> [] \<and> med \<in> set (medications f))"
proof (cases rule: rx_outcome_cases [of f reply now props col])
  case NoDiagnosis with assms show ?thesis by simp
next
  case NoMedication with assms show ?thesis by simp
next
  case WriteFailed with assms show ?thesis by simp
next
  case (Written newId)
  let ?p = "\<lparr>rx_id = newId,
             rx_appointmentId = props_appointmentId props,
             rx_patientId = props_patientId props,
             rx_patientName = props_patientName props,
             rx_diagnosis = diagnosis f,
             rx_medications = filter (\<lambda>med. trim (name med) \<noteq> []) (medications f),
             rx_notes = notes' f,
             rx_createdAt = now\<rparr>"
  have 1: "fst (snd (PrescriptionForm_handleSubmit reply now props f col)) = col @ [?p]"
    using Written(4) by simp
  have 2: "rx_medications ?p = filter (\<lambda>med. trim (name med) \<noteq> []) (medications f)"
    by simp
  have 3: "rx_medications ?p \<noteq> []"
    using Written(2) by simp
  have 4: "\<forall>med\<in>set (rx_medications ?p). name med \<noteq> [] \<and> med \<in> set (medications f)"
    using valid_medications_named by fastforce
  from 1 2 3 4 show ?thesis by blast
qed

text \<open>
  Claim C3. \<open>handleSubmit\<close> of the prescription form rejects (an alert is shown and the
  prescriptions collection is unchanged) every input whose diagnosis is empty or consists
  of white space only, and every input none of whose medications has a non-empty name.
  Whenever it accepts (no alert), exactly one record is appended; its medications are the
  entries of the form that pass the filter \<open>med.name.trim()\<close>, in order; there is at least
  one, and each of them has a non-empty name and is an entry of the form.
\<close>

theorem C3_createPrescription_validation:
  "((\<forall>c\<in>set (diagnosis f). isWhiteSpace c) \<longrightarrow>
      fst (PrescriptionForm_handleSubmit reply now props f col) \<noteq> None) \<and>
   (filter (\<lambda>med. name med \<noteq> []) (medications f) = [] \<longrightarrow>
      fst (PrescriptionForm_handleSubmit reply now props f col) \<noteq> None) \<and>
   (fst (PrescriptionForm_handleSubmit reply now props f col) \<noteq> None \<longrightarrow>
      fst (snd (PrescriptionForm_handleSubmit reply now props f col)) = col) \<and>
   (fst (PrescriptionForm_handleSubmit reply now props f col) = None \<longrightarrow>
      (\<exists>p. fst (snd (PrescriptionForm_handleSubmit reply now props f col)) = col @ [p] \<and>
           rx_medications p = filter (\<lambda>med. trim (name med) \<noteq> []) (medications f) \<and>
           rx_medications p \<noteq> [] \<and>
           (\<forall>med\<in>set (rx_medications p). name med \<noteq> [] \<and> med \<in> set (medications f))))"
  using rx_rejects_blank_diagnosis [of f reply now props col]
    rx_rejects_unnamed_medications [of f reply now props col]
    rx_rejected_unchanged [of reply now props f col]
    rx_accepted_persists [of reply now props f col]
  by blast

lemma example_diagnosis_kept:
  "trim (diagnosis (exampleForm ''Flu'' ns)) \<noteq> []"
  by (simp add: trim_empty_iff str_def isWhiteSpace_def exampleForm_def)

lemma example_valid_medications:
  "filter (\<lambda>med. trim (name med) \<noteq> [])
     (medications (exampleForm ''Flu'' [''Aspirin'', '' '', ''''])) =
   [exampleMedication ''Aspirin'']"
  by (simp add: trim_empty_iff str_def isWhiteSpace_def exampleForm_def exampleMedication_def)

theorem C3_createPrescription_validation_witness:
  "fst (PrescriptionForm_handleSubmit (Some (str ''rx1'')) 1000 exampleProps
          (exampleForm ''Flu'' [''Aspirin'', '' '', '''']) []) = None \<and>
   (\<exists>p. fst (snd (PrescriptionForm_handleSubmit (Some (str ''rx1'')) 1000 exampleProps
                     (exampleForm ''Flu'' [''Aspirin'', '' '', '''']) [])) = [p] \<and>
        rx_medications p = [exampleMedication ''Aspirin'']) \<and>
   list_all isWhiteSpace (diagnosis (exampleForm ''  '' [''Aspirin''])) \<and>
   fst (PrescriptionForm_handleSubmit (Some (str ''rx1'')) 1000 exampleProps
          (exampleForm ''  '' [''Aspirin'']) []) \<noteq> None \<and>
   filter (\<lambda>med. name med \<noteq> []) (medications (exampleForm ''Flu'' [''''])) = [] \<and>
   fst (PrescriptionForm_handleSubmit (Some (str ''rx1'')) 1000 exampleProps
          (exampleForm ''Flu'' ['''']) []) \<noteq> None"
proof -
  let ?ok = "exampleForm ''Flu'' [''Aspirin'', '' '', '''']"
  let ?blank = "exampleForm ''  '' [''Aspirin'']"
  let ?unnamed = "exampleForm ''Flu'' ['''']"
  have accepted: "fst (PrescriptionForm_handleSubmit (Some (str ''rx1'')) 1000 exampleProps
                         ?ok []) = None"
    using rx_written [of ?ok "str ''rx1''" 1000 exampleProps "[]"]
    by (simp add: example_diagnosis_kept example_valid_medications)
  have stored: "\<exists>p. fst (snd (PrescriptionForm_handleSubmit (Some (str ''rx1'')) 1000
                      exampleProps ?ok [])) = [p] \<and>
                    rx_medications p = [exampleMedication ''Aspirin'']"
  proof -
    from C3_createPrescription_validation
           [of ?ok "Some (str ''rx1'')" 1000 exampleProps "[]"] accepted
    obtain p where
      "fst (snd (PrescriptionForm_handleSubmit (Some (str ''rx1'')) 1000 exampleProps
                   ?ok [])) = [] @ [p]"
      "rx_medications p = filter (\<lambda>med. trim (name med) \<noteq> []) (medications ?ok)"
      by blast
    then show ?thesis
      by (simp add: example_valid_medications)
  qed
  have blank: "list_all isWhiteSpace (diagnosis ?blank)"
    by (simp add: exampleForm_def str_def isWhiteSpace_def)
  then have "\<forall>c\<in>set (diagnosis ?blank). isWhiteSpace c"
    by (simp add: list_all_iff)
  then have blank_rejected:
    "fst (PrescriptionForm_handleSubmit (Some (str ''rx1'')) 1000 exampleProps ?blank [])
       \<noteq> None"
    using C3_createPrescription_validation
            [of ?blank "Some (str ''rx1'')" 1000 exampleProps "[]"]
    by blast
  have unnamed: "filter (\<lambda>med. name med \<noteq> []) (medications ?unnamed) = []"
    by (simp add: exampleForm_def exampleMedication_def str_def)
  then have unnamed_rejected:
    "fst (PrescriptionForm_handleSubmit (Some (str ''rx1'')) 1000 exampleProps ?unnamed [])
       \<noteq> None"
    using C3_createPrescription_validation
            [of ?unnamed "Some (str ''rx1'')" 1000 exampleProps "[]"]
    by blast
  from accepted stored blank blank_rejected unnamed unnamed_rejected show ?thesis
    by blast
qed

section \<open>Properties of the aggregate statistics\<close>

lemma four_ratings:
  assumes "map fb_rating feedbackList = [r1, r2, r3, r4]"
  obtains a b c d where "feedbackList = [a, b, c, d]"
    "fb_rating a = r1" "fb_rating b = r2" "fb_rating c = r3" "fb_rating d = r4"
  using assms by (auto simp: map_eq_Cons_conv)

lemma round_example: "Math_round (of_int 17 / of_nat 4 * 10) = 43"
  by (simp add: Math_round_def)

text \<open>
  Claim C7. For feedback records rated 5, 4, 5, 3 (in this order, whatever their other
  fields) \<open>calculateStats\<close> yields 4 reviews, the average 4.3 and the histogram
  1:0, 2:0, 3:1, 4:1, 5:2. The rationals of the model agree with the doubles of the
  program here: the sum 17, the mean 4.25 and the product 42.5 are exact in binary
  floating point, \<open>Math.round(42.5)\<close> is 43, and 43 / 10 is the double written 4.3.
\<close>

theorem C7_calculateStats_example:
  assumes "map fb_rating feedbackList = [5, 4, 5, 3]"
  shows "totalReviews (calculateStats feedbackList) = 4 \<and>
         averageRating (calculateStats feedbackList) = 43 / 10 \<and>
         ratingDistribution (calculateStats feedbackList) =
           [1 \<mapsto> Count 0, 2 \<mapsto> Count 0, 3 \<mapsto> Count 1, 4 \<mapsto> Count 1, 5 \<mapsto> Count 2]"
proof -
  from assms obtain a b c d where xs: "feedbackList = [a, b, c, d]"
    and r: "fb_rating a = 5" "fb_rating b = 4" "fb_rating c = 5" "fb_rating d = 3"
    by (rule four_ratings)
  have total: "totalReviews (calculateStats feedbackList) = 4"
    by (simp add: calculateStats_def Let_def xs)
  have average: "averageRating (calculateStats feedbackList) = 43 / 10"
    using round_example by (simp add: calculateStats_def Let_def xs r)
  have histogram: "ratingDistribution (calculateStats feedbackList) =
      [1 \<mapsto> Count 0, 2 \<mapsto> Count 0, 3 \<mapsto> Count 1, 4 \<mapsto> Count 1, 5 \<mapsto> Count 2]"
    by (simp add: calculateStats_def Let_def xs r increment_def fun_eq_iff)
  from total average histogram show ?thesis by blast
qed

theorem C7_calculateStats_example_witness:
  "map fb_rating [exampleFeedback ''a1'' 5, exampleFeedback ''a2'' 4,
                  exampleFeedback ''a3'' 5, exampleFeedback ''a4'' 3] = [5, 4, 5, 3] \<and>
   totalReviews (calculateStats [exampleFeedback ''a1'' 5, exampleFeedback ''a2'' 4,
                  exampleFeedback ''a3'' 5, exampleFeedback ''a4'' 3]) = 4 \<and>
   averageRating (calculateStats [exampleFeedback ''a1'' 5, exampleFeedback ''a2'' 4,
                  exampleFeedback ''a3'' 5, exampleFeedback ''a4'' 3]) = 43 / 10 \<and>
   ratingDistribution (calculateStats [exampleFeedback ''a1'' 5, exampleFeedback ''a2'' 4,
                  exampleFeedback ''a3'' 5, exampleFeedback ''a4'' 3]) 5 = Some (Count 2)"
proof -
  have ratings: "map fb_rating [exampleFeedback ''a1'' 5, exampleFeedback ''a2'' 4,
                  exampleFeedback ''a3'' 5, exampleFeedback ''a4'' 3] = [5, 4, 5, 3]"
    by (simp add: exampleFeedback_def)
  from C7_calculateStats_example [OF ratings] ratings show ?thesis
    by simp
qed

section \<open>Properties of the time slots\<close>

lemma generateTimeSlots_eq:
  "generateTimeSlots =
     map str [''09:00'', ''09:30'', ''10:00'', ''10:30'', ''11:00'', ''11:30'',
              ''12:00'', ''12:30'', ''13:00'', ''13:30'', ''14:00'', ''14:30'',
              ''15:00'', ''15:30'', ''16:00'', ''16:30'', ''17:00'', ''17:30'']"
  by (simp add: generateTimeSlots_def padStart_def str_def digit_def)

text \<open>
  Claim C10. \<open>generateTimeSlots\<close> returns the 18 strings 09:00, 09:30, ..., 17:00, 17:30,
  one per half hour, in strictly ascending order (strings compared code unit by code
  unit, as JavaScript does); the options of the time select other than the empty
  placeholder are exactly these.
\<close>

theorem C10_generateTimeSlots:
  "generateTimeSlots =
     map str [''09:00'', ''09:30'', ''10:00'', ''10:30'', ''11:00'', ''11:30'',
              ''12:00'', ''12:30'', ''13:00'', ''13:30'', ''14:00'', ''14:30'',
              ''15:00'', ''15:30'', ''16:00'', ''16:30'', ''17:00'', ''17:30''] \<and>
   length generateTimeSlots = 18 \<and>
   sorted_wrt ord_class.lexordp generateTimeSlots \<and>
   set timeOptions - {[]} = set generateTimeSlots"
proof -
  have len: "length generateTimeSlots = 18"
    unfolding generateTimeSlots_eq by simp
  have asc: "sorted_wrt ord_class.lexordp generateTimeSlots"
    unfolding generateTimeSlots_eq by (simp add: str_def)
  have "[] \<notin> set generateTimeSlots"
    unfolding generateTimeSlots_eq by (simp add: str_def)
  then have opts: "set timeOptions - {[]} = set generateTimeSlots"
    by (auto simp: timeOptions_def)
  from generateTimeSlots_eq len asc opts show ?thesis by blast
qed

section \<open>Properties of the feedback page\<close>







































section \<open>Properties of feedback submission\<close>











lemma starRatings_eq: "starRatings = [1, 2, 3, 4, 5]"
  by (simp add: starRatings_def upt_rec)












section \<open>Properties of the booking policy\<close>

lemma book_policy:
  "todayBookings s \<ge> 2 \<Longrightarrow>
   BookAppointment_handleSubmit h u io (col, s) =
     (col, s\<lparr>error := str ''You can only book a maximum of 2 appointments per day''\<rparr>)"
  by (simp add: BookAppointment_handleSubmit_def)

lemma book_missing:
  "todayBookings s < 2 \<Longrightarrow>
   fd_doctorId (formData s) = [] \<or> fd_date (formData s) = [] \<or> fd_time (formData s) = [] \<Longrightarrow>
   BookAppointment_handleSubmit h u io (col, s) =
     (col, s\<lparr>error := str ''Please fill in all required fields''\<rparr>)"
  by (auto simp: BookAppointment_handleSubmit_def Let_def)

lemma book_past:
  "todayBookings s < 2 \<Longrightarrow>
   fd_doctorId (formData s) \<noteq> [] \<Longrightarrow> fd_date (formData s) \<noteq> [] \<Longrightarrow>
   fd_time (formData s) \<noteq> [] \<Longrightarrow>
   dateLess (parseDate h (fd_date (formData s))) (setHours0 h (io_now io)) \<Longrightarrow>
   BookAppointment_handleSubmit h u io (col, s) =
     (col, s\<lparr>error := str ''Cannot book appointments for past dates''\<rparr>)"
  by (simp add: BookAppointment_handleSubmit_def Let_def)

lemma book_write_failed:
  "todayBookings s < 2 \<Longrightarrow>
   fd_doctorId (formData s) \<noteq> [] \<Longrightarrow> fd_date (formData s) \<noteq> [] \<Longrightarrow>
   fd_time (formData s) \<noteq> [] \<Longrightarrow>
   \<not> dateLess (parseDate h (fd_date (formData s))) (setHours0 h (io_now io)) \<Longrightarrow>
   io_addDoc io = None \<Longrightarrow>
   BookAppointment_handleSubmit h u io (col, s) =
     (col, s\<lparr>ba_loading := False,
             error := str ''Failed to book appointment. Please try again.''\<rparr>)"
  by (simp add: BookAppointment_handleSubmit_def Let_def)

lemma book_written:
  "todayBookings s < 2 \<Longrightarrow>
   fd_doctorId (formData s) \<noteq> [] \<Longrightarrow> fd_date (formData s) \<noteq> [] \<Longrightarrow>
   fd_time (formData s) \<noteq> [] \<Longrightarrow>
   \<not> dateLess (parseDate h (fd_date (formData s))) (setHours0 h (io_now io)) \<Longrightarrow>
   io_addDoc io = Some newId \<Longrightarrow>
   fst (BookAppointment_handleSubmit h u io (col, s)) =
     col @ [\<lparr>id' = newId,
             patientId = map_option uid u,
             patientName = map_option user_name u,
             doctorId = fd_doctorId (formData s),
             doctorName =
               map_option doc_name
                 (find (\<lambda>doc. doc_id doc = fd_doctorId (formData s)) (doctors s)),
             date = fd_date (formData s),
             time = fd_time (formData s),
             note' = fd_note (formData s),
             status = str ''pending'',
             createdAt = Some (io_created io)\<rparr>]"
  by (simp add: BookAppointment_handleSubmit_def Let_def)

text \<open>Under a wall clock, local midnight is a valid date, less than a day after UTC midnight of the local day.\<close>

lemma setHours0_wallClock:
  assumes "wallClock h now"
  shows "\<exists>m. setHours0 h now = Some m \<and> Day (LocalTime h now) * msPerDay - msPerDay < m"
proof -
  let ?t = "LocalTime h now"
  let ?date = "Day ?t * msPerDay"
  from assms have tz1: "\<bar>localTZA h now True\<bar> < msPerDay"
    and tz2: "\<bar>localTZA h ?date False\<bar> < msPerDay"
    and lo: "0 \<le> now" and hi: "now \<le> 8640000000000000 - 2 * msPerDay"
    by (simp_all add: wallClock_def)
  have pos: "0 < msPerDay"
    by (simp add: msPerDay_def)
  have split: "?t = ?t div msPerDay * msPerDay + ?t mod msPerDay"
    by simp
  have r0: "0 \<le> ?t mod msPerDay"
    using pos by (rule pos_mod_sign)
  have r1: "?t mod msPerDay < msPerDay"
    using pos by (rule pos_mod_bound)
  have d1: "?date \<le> ?t"
    unfolding Day_def using split r0 by linarith
  have d2: "?t - msPerDay < ?date"
    unfolding Day_def using split r1 by linarith
  have t: "?t = now + localTZA h now True"
    by (simp add: LocalTime_def)
  let ?m = "?date - localTZA h ?date False"
  have "\<bar>?m\<bar> \<le> 8640000000000000"
    using d1 d2 t tz1 tz2 lo hi by (simp add: msPerDay_def)
  then have "setHours0 h now = Some ?m"
    by (simp add: setHours0_def TimeClip_def Let_def)
  moreover have "?date - msPerDay < ?m"
    using tz2 by linarith
  ultimately show ?thesis by blast
qed

lemma past_date_less:
  assumes "wallClock h now"
    and "parseDate h s = Some (d * msPerDay)"
    and "d < Day (LocalTime h now)"
  shows "dateLess (parseDate h s) (setHours0 h now)"
proof -
  from setHours0_wallClock [OF assms(1)] obtain m where
    m: "setHours0 h now = Some m" "Day (LocalTime h now) * msPerDay - msPerDay < m"
    by blast
  from assms(3) have "d + 1 \<le> Day (LocalTime h now)"
    by simp
  then have "(d + 1) * msPerDay \<le> Day (LocalTime h now) * msPerDay"
    by (simp add: msPerDay_def)
  then have "d * msPerDay \<le> Day (LocalTime h now) * msPerDay - msPerDay"
    by (simp add: algebra_simps)
  with m(2) have "d * msPerDay < m"
    by linarith
  with m(1) assms(2) show ?thesis
    by (simp add: dateLess_def)
qed

text \<open>
  Claim C8, as the code has it. A request in which \<open>doctorId\<close>, \<open>date\<close> or \<open>time\<close> is
  missing is rejected and creates no appointment. The daily count is tested first: the
  error is the one for missing required fields when \<open>todayBookings\<close> is below 2, and
  the one for the daily maximum when it is 2 or more.
\<close>

theorem C8_missing_fields:
  assumes "fd_doctorId (formData s) = [] \<or> fd_date (formData s) = [] \<or>
           fd_time (formData s) = []"
  shows "fst (BookAppointment_handleSubmit h u io (col, s)) = col \<and>
         (todayBookings s < 2 \<longrightarrow>
            snd (BookAppointment_handleSubmit h u io (col, s)) =
              s\<lparr>error := str ''Please fill in all required fields''\<rparr>) \<and>
         (2 \<le> todayBookings s \<longrightarrow>
            snd (BookAppointment_handleSubmit h u io (col, s)) =
              s\<lparr>error := str ''You can only book a maximum of 2 appointments per day''\<rparr>)"
proof (cases "todayBookings s < 2")
  case True
  with assms show ?thesis
    using book_missing [of s h u io col] by simp
next
  case False
  then show ?thesis
    using book_policy [of s h u io col] by simp
qed

theorem C8_missing_fields_witness:
  "fd_doctorId (formData (exampleBooking '''' ''2024-01-02'' ''09:00'' 1)) = [] \<and>
   BookAppointment_handleSubmit exampleHost (Some exampleUser)
     (exampleIO 1704103200000 ''a1'') ([], exampleBooking '''' ''2024-01-02'' ''09:00'' 1) =
     ([], (exampleBooking '''' ''2024-01-02'' ''09:00'' 1)
            \<lparr>error := str ''Please fill in all required fields''\<rparr>)"
proof -
  let ?s = "exampleBooking '''' ''2024-01-02'' ''09:00'' 1"
  have missing: "fd_doctorId (formData ?s) = []"
    by (simp add: exampleBooking_def str_def)
  have count: "todayBookings ?s < 2"
    by (simp add: exampleBooking_def)
  from missing have "fd_doctorId (formData ?s) = [] \<or> fd_date (formData ?s) = [] \<or>
      fd_time (formData ?s) = []"
    by blast
  from C8_missing_fields [OF this, of exampleHost "Some exampleUser"
      "exampleIO 1704103200000 ''a1''" "[]"] count
  have "fst (BookAppointment_handleSubmit exampleHost (Some exampleUser)
           (exampleIO 1704103200000 ''a1'') ([], ?s)) = [] \<and>
        snd (BookAppointment_handleSubmit exampleHost (Some exampleUser)
           (exampleIO 1704103200000 ''a1'') ([], ?s)) =
          ?s\<lparr>error := str ''Please fill in all required fields''\<rparr>"
    by blast
  then have "BookAppointment_handleSubmit exampleHost (Some exampleUser)
       (exampleIO 1704103200000 ''a1'') ([], ?s) =
     ([], ?s\<lparr>error := str ''Please fill in all required fields''\<rparr>)"
    by (simp add: prod_eq_iff)
  with missing show ?thesis by blast
qed

text \<open>
  With two bookings counted, a request without a doctor gets the error of the daily
  maximum, not the one for missing fields.
\<close>

theorem C8_missing_fields_counterexample:
  "fd_doctorId (formData (exampleBooking '''' ''2024-01-02'' ''09:00'' 2)) = [] \<and>
   error (snd (BookAppointment_handleSubmit exampleHost (Some exampleUser)
     (exampleIO 1704103200000 ''a1'') ([], exampleBooking '''' ''2024-01-02'' ''09:00'' 2))) =
     str ''You can only book a maximum of 2 appointments per day'' \<and>
   error (snd (BookAppointment_handleSubmit exampleHost (Some exampleUser)
     (exampleIO 1704103200000 ''a1'') ([], exampleBooking '''' ''2024-01-02'' ''09:00'' 2))) \<noteq>
     str ''Please fill in all required fields''"
proof -
  let ?s = "exampleBooking '''' ''2024-01-02'' ''09:00'' 2"
  have missing: "fd_doctorId (formData ?s) = []"
    by (simp add: exampleBooking_def str_def)
  have "todayBookings ?s \<ge> 2"
    by (simp add: exampleBooking_def)
  then have e: "error (snd (BookAppointment_handleSubmit exampleHost (Some exampleUser)
     (exampleIO 1704103200000 ''a1'') ([], ?s))) =
     str ''You can only book a maximum of 2 appointments per day''"
    by (simp add: book_policy)
  have "str ''You can only book a maximum of 2 appointments per day'' \<noteq>
        str ''Please fill in all required fields''"
    by (simp add: str_def)
  with missing e show ?thesis by simp
qed

lemma example_parse_jan9:
  "parseDate exampleHost (str ''2024-01-09'') = Some (19731 * msPerDay)"
  by (simp add: exampleHost_def isoJanuary2024_def padStart_def str_def digit_def
      msPerDay_def upt_rec)

lemma example_wallClock: "wallClock exampleHost 1704880800000"
  by (simp add: wallClock_def exampleHost_def msPerDay_def)

lemma example_local_day: "Day (LocalTime exampleHost 1704880800000) = 19732"
  by (simp add: exampleHost_def LocalTime_def Day_def msPerDay_def)

text \<open>
  Claim C4, as the code has it. Let the requested date be calendar day \<open>d\<close> (a date-only
  string denotes midnight UTC of its day) and let \<open>d\<close> lie strictly before the local
  calendar day of the clock, yesterday for instance. Then the request is rejected and no
  appointment is created, whatever the other fields. The error is the one for past dates
  when \<open>todayBookings\<close> is below 2 and the three required fields are present, the one for
  missing fields when \<open>todayBookings\<close> is below 2 and one of them is absent, and the one
  for the daily maximum when \<open>todayBookings\<close> is 2 or more.
\<close>

theorem C4_past_date_rejected:
  assumes "wallClock h (io_now io)"
      and "parseDate h (fd_date (formData s)) = Some (d * msPerDay)"
      and "d < Day (LocalTime h (io_now io))"
  shows "fst (BookAppointment_handleSubmit h u io (col, s)) = col \<and>
         (todayBookings s < 2 \<and> fd_doctorId (formData s) \<noteq> [] \<and>
          fd_date (formData s) \<noteq> [] \<and> fd_time (formData s) \<noteq> [] \<longrightarrow>
            snd (BookAppointment_handleSubmit h u io (col, s)) =
              s\<lparr>error := str ''Cannot book appointments for past dates''\<rparr>) \<and>
         (todayBookings s < 2 \<and>
          (fd_doctorId (formData s) = [] \<or> fd_date (formData s) = [] \<or>
           fd_time (formData s) = []) \<longrightarrow>
            snd (BookAppointment_handleSubmit h u io (col, s)) =
              s\<lparr>error := str ''Please fill in all required fields''\<rparr>) \<and>
         (2 \<le> todayBookings s \<longrightarrow>
            snd (BookAppointment_handleSubmit h u io (col, s)) =
              s\<lparr>error := str ''You can only book a maximum of 2 appointments per day''\<rparr>)"
proof -
  have past: "dateLess (parseDate h (fd_date (formData s))) (setHours0 h (io_now io))"
    using assms by (rule past_date_less)
  show ?thesis
  proof (cases "todayBookings s < 2")
    case False
    then show ?thesis
      using book_policy [of s h u io col] by simp
  next
    case low: True
    show ?thesis
    proof (cases "fd_doctorId (formData s) = [] \<or> fd_date (formData s) = [] \<or>
        fd_time (formData s) = []")
      case True
      with low show ?thesis
        using book_missing [of s h u io col] by auto
    next
      case False
      with low past show ?thesis
        by (simp add: book_past)
    qed
  qed
qed

theorem C4_past_date_rejected_witness:
  "wallClock exampleHost (io_now (exampleIO 1704880800000 ''a1'')) \<and>
   parseDate exampleHost (fd_date (formData (exampleBooking ''d1'' ''2024-01-09'' ''09:00'' 0))) =
     Some (19731 * msPerDay) \<and>
   19731 < Day (LocalTime exampleHost (io_now (exampleIO 1704880800000 ''a1''))) \<and>
   BookAppointment_handleSubmit exampleHost (Some exampleUser)
     (exampleIO 1704880800000 ''a1'') ([], exampleBooking ''d1'' ''2024-01-09'' ''09:00'' 0) =
     ([], (exampleBooking ''d1'' ''2024-01-09'' ''09:00'' 0)
            \<lparr>error := str ''Cannot book appointments for past dates''\<rparr>)"
proof -
  let ?s = "exampleBooking ''d1'' ''2024-01-09'' ''09:00'' 0"
  let ?io = "exampleIO 1704880800000 ''a1''"
  have now: "io_now ?io = 1704880800000"
    by (simp add: exampleIO_def)
  have clock: "wallClock exampleHost (io_now ?io)"
    by (simp add: now example_wallClock)
  have parsed: "parseDate exampleHost (fd_date (formData ?s)) = Some (19731 * msPerDay)"
    by (simp add: exampleBooking_def example_parse_jan9)
  have before: "19731 < Day (LocalTime exampleHost (io_now ?io))"
    by (simp add: now example_local_day)
  have fields: "todayBookings ?s < 2 \<and> fd_doctorId (formData ?s) \<noteq> [] \<and>
      fd_date (formData ?s) \<noteq> [] \<and> fd_time (formData ?s) \<noteq> []"
    by (simp add: exampleBooking_def str_def)
  from C4_past_date_rejected [OF clock parsed before, of "Some exampleUser" "[]"] fields
  have "fst (BookAppointment_handleSubmit exampleHost (Some exampleUser) ?io ([], ?s)) = [] \<and>
        snd (BookAppointment_handleSubmit exampleHost (Some exampleUser) ?io ([], ?s)) =
          ?s\<lparr>error := str ''Cannot book appointments for past dates''\<rparr>"
    by blast
  then have "BookAppointment_handleSubmit exampleHost (Some exampleUser) ?io ([], ?s) =
      ([], ?s\<lparr>error := str ''Cannot book appointments for past dates''\<rparr>)"
    by (simp add: prod_eq_iff)
  with clock parsed before show ?thesis by blast
qed

text \<open>
  Yesterday's date with every field filled in, but two bookings counted: the request is
  rejected with the error of the daily maximum, which is a policy error, not a
  validation error.
\<close>

theorem C4_past_date_rejected_counterexample:
  "parseDate exampleHost (fd_date (formData (exampleBooking ''d1'' ''2024-01-09'' ''09:00'' 2))) =
     Some (19731 * msPerDay) \<and>
   19731 < Day (LocalTime exampleHost (io_now (exampleIO 1704880800000 ''a1''))) \<and>
   error (snd (BookAppointment_handleSubmit exampleHost (Some exampleUser)
     (exampleIO 1704880800000 ''a1'')
     ([], exampleBooking ''d1'' ''2024-01-09'' ''09:00'' 2))) =
     str ''You can only book a maximum of 2 appointments per day'' \<and>
   error (snd (BookAppointment_handleSubmit exampleHost (Some exampleUser)
     (exampleIO 1704880800000 ''a1'')
     ([], exampleBooking ''d1'' ''2024-01-09'' ''09:00'' 2))) \<noteq>
     str ''Cannot book appointments for past dates'' \<and>
   error (snd (BookAppointment_handleSubmit exampleHost (Some exampleUser)
     (exampleIO 1704880800000 ''a1'')
     ([], exampleBooking ''d1'' ''2024-01-09'' ''09:00'' 2))) \<noteq>
     str ''Please fill in all required fields''"
proof -
  let ?s = "exampleBooking ''d1'' ''2024-01-09'' ''09:00'' 2"
  let ?io = "exampleIO 1704880800000 ''a1''"
  have parsed: "parseDate exampleHost (fd_date (formData ?s)) = Some (19731 * msPerDay)"
    by (simp add: exampleBooking_def example_parse_jan9)
  have before: "19731 < Day (LocalTime exampleHost (io_now ?io))"
    by (simp add: exampleIO_def example_local_day)
  have "todayBookings ?s \<ge> 2"
    by (simp add: exampleBooking_def)
  then have e: "error (snd (BookAppointment_handleSubmit exampleHost (Some exampleUser) ?io
     ([], ?s))) = str ''You can only book a maximum of 2 appointments per day''"
    by (simp add: book_policy)
  have d1: "str ''You can only book a maximum of 2 appointments per day'' \<noteq>
        str ''Cannot book appointments for past dates''"
    by (simp add: str_def)
  have d2: "str ''You can only book a maximum of 2 appointments per day'' \<noteq>
        str ''Please fill in all required fields''"
    by (simp add: str_def)
  from parsed before e d1 d2 show ?thesis by simp
qed

section \<open>The daily maximum on a run of bookings\<close>

lemma example_parse_jan2:
  "parseDate exampleHost (str ''2024-01-02'') = Some 1704153600000"
  by (simp add: exampleHost_def isoJanuary2024_def padStart_def str_def digit_def
      msPerDay_def upt_rec)

lemma example_midnight_jan1:
  "setHours0 exampleHost 1704103200000 = Some 1704047400000"
  by (simp add: exampleHost_def setHours0_def LocalTime_def Day_def msPerDay_def
      TimeClip_def)

lemma example_today_jan1:
  "toISODate exampleHost 1704103200000 = str ''2024-01-01''"
  by (simp add: exampleHost_def isoJanuary2024_def padStart_def str_def digit_def Day_def
      msPerDay_def)

lemma no_booking_today:
  "list_all (\<lambda>a. date a \<noteq> today) col \<Longrightarrow>
   filter (\<lambda>d. patientId d = p \<and> date d = today) col = []"
  by (induction col) simp_all

text \<open>
  One booking for 2024-01-02, made on 2024-01-01 by a patient whose counter shows 0 and
  who has no appointment dated 2024-01-01: it is stored, and the counter still shows 0.
\<close>

lemma example_booking_step:
  assumes "todayBookings s = 0" and "list_all (\<lambda>a. date a \<noteq> str ''2024-01-01'') col"
  shows "\<exists>a s'. fillAndSubmit exampleHost (Some exampleUser) (exampleIO 1704103200000 i)
                  (str ''d1'') (str ''2024-01-02'') (str ''09:00'') (col, s) = (col @ [a], s') \<and>
                id' a = str i \<and> patientId a = Some (str ''p1'') \<and>
                date a = str ''2024-01-02'' \<and> todayBookings s' = 0"
proof -
  let ?s1 = "handleChange (str ''time'') (str ''09:00'')
          (handleChange (str ''date'') (str ''2024-01-02'')
             (handleChange (str ''doctorId'') (str ''d1'') (bookAnother s)))"
  let ?io = "exampleIO 1704103200000 i"
  have form: "formData ?s1 =
      (formData s)\<lparr>fd_doctorId := str ''d1'', fd_date := str ''2024-01-02'',
                    fd_time := str ''09:00''\<rparr>"
    by (simp add: handleChange_def bookAnother_def Let_def str_def)
  have count: "todayBookings ?s1 = 0"
    using assms(1) by (simp add: handleChange_def bookAnother_def Let_def)
  have io: "io_now ?io = 1704103200000" "io_addDoc ?io = Some (str i)"
    "io_created ?io = 1704103200000" "io_refresh_now ?io = 1704103200000"
    "io_refresh_ok ?io = True"
    by (simp_all add: exampleIO_def)
  have future: "\<not> dateLess (parseDate exampleHost (fd_date (formData ?s1)))
      (setHours0 exampleHost (io_now ?io))"
    by (simp add: form io example_parse_jan2 example_midnight_jan1 dateLess_def)
  have filled: "fd_doctorId (formData ?s1) \<noteq> []" "fd_date (formData ?s1) \<noteq> []"
    "fd_time (formData ?s1) \<noteq> []"
    unfolding form by (simp_all add: str_def)
  let ?a = "\<lparr>id' = str i,
             patientId = map_option uid (Some exampleUser),
             patientName = map_option user_name (Some exampleUser),
             doctorId = fd_doctorId (formData ?s1),
             doctorName =
               map_option doc_name
                 (find (\<lambda>doc. doc_id doc = fd_doctorId (formData ?s1)) (doctors ?s1)),
             date = fd_date (formData ?s1),
             time = fd_time (formData ?s1),
             note' = fd_note (formData ?s1),
             status = str ''pending'',
             createdAt = Some (io_created ?io)\<rparr>"
  let ?r = "BookAppointment_handleSubmit exampleHost (Some exampleUser) ?io (col, ?s1)"
  have stored: "fst ?r = col @ [?a]"
    using count filled future io(2)
    by (intro book_written) simp_all
  have da: "date ?a = str ''2024-01-02''"
    by (simp add: form)
  have "date ?a \<noteq> str ''2024-01-01''"
    unfolding da by (simp add: str_def)
  with assms(2) have later: "list_all (\<lambda>a. date a \<noteq> str ''2024-01-01'') (col @ [?a])"
    by simp
  have refreshed: "todayBookings (snd ?r) =
      length (filter (\<lambda>d. patientId d = Some (uid exampleUser) \<and>
                          date d = str ''2024-01-01'') (col @ [?a]))"
    using count filled future io
    by (simp add: BookAppointment_handleSubmit_def Let_def checkTodayBookings_def
        example_today_jan1)
  have "filter (\<lambda>d. patientId d = Some (uid exampleUser) \<and>
                     date d = str ''2024-01-01'') (col @ [?a]) = []"
    using later by (rule no_booking_today)
  with refreshed have zero: "todayBookings (snd ?r) = 0"
    by (simp only: list.size(3))
  have "fillAndSubmit exampleHost (Some exampleUser) ?io (str ''d1'') (str ''2024-01-02'')
          (str ''09:00'') (col, s) = (col @ [?a], snd ?r)"
    using stored by (simp add: fillAndSubmit_def prod_eq_iff)
  moreover have "id' ?a = str i \<and> patientId ?a = Some (str ''p1'')"
    by (simp add: exampleUser_def)
  ultimately show ?thesis
    using da zero by blast
qed

lemma example_dates_differ: "str ''2024-01-02'' \<noteq> str ''2024-01-01''"
  by (simp add: str_def)

text \<open>
  Claim C2 on the code. On 2024-01-01 a patient with no appointments opens the form and
  books three times in a row, each time for 2024-01-02, the counter being refreshed
  after every booking. \<open>checkTodayBookings\<close> counts the appointments dated today
  (2024-01-01), not those of the requested date, so the counter stays at 0 and all three
  requests are accepted: the patient ends with three appointments dated 2024-01-02.
\<close>

theorem C2_three_bookings_same_date:
  "map date (fst
     (fillAndSubmit exampleHost (Some exampleUser) (exampleIO 1704103200000 ''a3'')
        (str ''d1'') (str ''2024-01-02'') (str ''09:00'')
        (fillAndSubmit exampleHost (Some exampleUser) (exampleIO 1704103200000 ''a2'')
           (str ''d1'') (str ''2024-01-02'') (str ''09:00'')
           (fillAndSubmit exampleHost (Some exampleUser) (exampleIO 1704103200000 ''a1'')
              (str ''d1'') (str ''2024-01-02'') (str ''09:00'')
              ([], checkTodayBookings exampleHost (Some exampleUser) 1704103200000 True []
                     (initialBooking [exampleDoctor])))))) =
     [str ''2024-01-02'', str ''2024-01-02'', str ''2024-01-02''] \<and>
   map patientId (fst
     (fillAndSubmit exampleHost (Some exampleUser) (exampleIO 1704103200000 ''a3'')
        (str ''d1'') (str ''2024-01-02'') (str ''09:00'')
        (fillAndSubmit exampleHost (Some exampleUser) (exampleIO 1704103200000 ''a2'')
           (str ''d1'') (str ''2024-01-02'') (str ''09:00'')
           (fillAndSubmit exampleHost (Some exampleUser) (exampleIO 1704103200000 ''a1'')
              (str ''d1'') (str ''2024-01-02'') (str ''09:00'')
              ([], checkTodayBookings exampleHost (Some exampleUser) 1704103200000 True []
                     (initialBooking [exampleDoctor])))))) =
     [Some (str ''p1''), Some (str ''p1''), Some (str ''p1'')] \<and>
   map id' (fst
     (fillAndSubmit exampleHost (Some exampleUser) (exampleIO 1704103200000 ''a3'')
        (str ''d1'') (str ''2024-01-02'') (str ''09:00'')
        (fillAndSubmit exampleHost (Some exampleUser) (exampleIO 1704103200000 ''a2'')
           (str ''d1'') (str ''2024-01-02'') (str ''09:00'')
           (fillAndSubmit exampleHost (Some exampleUser) (exampleIO 1704103200000 ''a1'')
              (str ''d1'') (str ''2024-01-02'') (str ''09:00'')
              ([], checkTodayBookings exampleHost (Some exampleUser) 1704103200000 True []
                     (initialBooking [exampleDoctor])))))) =
     [str ''a1'', str ''a2'', str ''a3'']"
proof -
  let ?mounted = "checkTodayBookings exampleHost (Some exampleUser) 1704103200000 True []
               (initialBooking [exampleDoctor])"
  have c0: "todayBookings ?mounted = 0"
    by (simp add: checkTodayBookings_def)
  have l0: "list_all (\<lambda>a. date a \<noteq> str ''2024-01-01'') []"
    by simp
  from example_booking_step [OF c0 l0, of "''a1''"] obtain a1 s1 where
    w1: "fillAndSubmit exampleHost (Some exampleUser) (exampleIO 1704103200000 ''a1'')
           (str ''d1'') (str ''2024-01-02'') (str ''09:00'') ([], ?mounted) = ([] @ [a1], s1)"
    and f1: "id' a1 = str ''a1''" "patientId a1 = Some (str ''p1'')"
      "date a1 = str ''2024-01-02''"
    and c1: "todayBookings s1 = 0"
    by blast
  have l1: "list_all (\<lambda>a. date a \<noteq> str ''2024-01-01'') ([] @ [a1])"
    using f1(3) example_dates_differ by simp
  from example_booking_step [OF c1 l1, of "''a2''"] obtain a2 s2 where
    w2: "fillAndSubmit exampleHost (Some exampleUser) (exampleIO 1704103200000 ''a2'')
           (str ''d1'') (str ''2024-01-02'') (str ''09:00'') ([] @ [a1], s1) =
         (([] @ [a1]) @ [a2], s2)"
    and f2: "id' a2 = str ''a2''" "patientId a2 = Some (str ''p1'')"
      "date a2 = str ''2024-01-02''"
    and c2: "todayBookings s2 = 0"
    by blast
  have l2: "list_all (\<lambda>a. date a \<noteq> str ''2024-01-01'') (([] @ [a1]) @ [a2])"
    using f1(3) f2(3) example_dates_differ by simp
  from example_booking_step [OF c2 l2, of "''a3''"] obtain a3 s3 where
    w3: "fillAndSubmit exampleHost (Some exampleUser) (exampleIO 1704103200000 ''a3'')
           (str ''d1'') (str ''2024-01-02'') (str ''09:00'') (([] @ [a1]) @ [a2], s2) =
         ((([] @ [a1]) @ [a2]) @ [a3], s3)"
    and f3: "id' a3 = str ''a3''" "patientId a3 = Some (str ''p1'')"
      "date a3 = str ''2024-01-02''"
    by blast
  show ?thesis
    unfolding w1 w2 w3 using f1 f2 f3 by simp
qed

end
